theory Spec2Isabelle
  imports Main "HOL-Library.Multiset" "HOL-Library.Sublist"
begin

section \<open>Python values\<close>

text \<open>
  Exceptions are values. The type covers instances of Python's \<^verbatim>\<open>Exception\<close>, the class
  that the \<^verbatim>\<open>except Exception\<close> handlers of the source catch: the Telethon errors the
  source names, \<^verbatim>\<open>ValueError\<close> (raised by \<^verbatim>\<open>config.py\<close>) and any other exception.
  The last string of every constructor is \<^verbatim>\<open>str(e)\<close>. Interrupts of the running task
  (\<^verbatim>\<open>KeyboardInterrupt\<close>, \<^verbatim>\<open>asyncio.CancelledError\<close>) are not raised by a call of
  the client library and are outside this model.
\<close>

datatype py_exception =
    UsernameNotOccupiedError string
  | UsernameInvalidError string
  | FloodWaitError int string
  | PeerFloodError string
  | ValueError string
  | OtherException string

fun str_exc :: "py_exception \<Rightarrow> string" where
  "str_exc (UsernameNotOccupiedError s) = s"
| "str_exc (UsernameInvalidError s) = s"
| "str_exc (FloodWaitError n s) = s"
| "str_exc (PeerFloodError s) = s"
| "str_exc (ValueError s) = s"
| "str_exc (OtherException s) = s"

text \<open>\<^verbatim>\<open>str(n)\<close> of a Python integer: decimal digits, a minus sign when negative.\<close>

fun str_nat :: "nat \<Rightarrow> string" where
  "str_nat n =
     (if n < 10 then [''0123456789'' ! n]
      else str_nat (n div 10) @ [''0123456789'' ! (n mod 10)])"

declare str_nat.simps [simp del]

definition str_int :: "int \<Rightarrow> string" where
  "str_int i = (if i < 0 then ''-'' @ str_nat (nat (- i)) else str_nat (nat i))"

text \<open>\<^verbatim>\<open>s.lstrip(chars)\<close>: drops leading characters of \<open>s\<close> for as long as they occur in \<open>chars\<close>.\<close>

fun lstrip :: "string \<Rightarrow> string \<Rightarrow> string" where
  "lstrip [] chars = []"
| "lstrip (c # s) chars = (if c \<in> set chars then lstrip s chars else c # s)"

text \<open>\<^verbatim>\<open>sep.join(xs)\<close>.\<close>

fun join :: "string \<Rightarrow> string list \<Rightarrow> string" where
  "join sep [] = []"
| "join sep [x] = x"
| "join sep (x # y # ys) = x @ sep @ join sep (y # ys)"

section \<open>The client library and the observable effects\<close>

text \<open>
  What \<^verbatim>\<open>get_entity\<close> returns: a Telethon \<^verbatim>\<open>User\<close>, \<^verbatim>\<open>Chat\<close> or \<^verbatim>\<open>Channel\<close>
  (the number is its id).
\<close>

datatype entity = User nat | Chat nat | Channel nat

fun isinstance_User :: "entity \<Rightarrow> bool" where
  "isinstance_User (User n) = True"
| "isinstance_User (Chat n) = False"
| "isinstance_User (Channel n) = False"

text \<open>The account \<^verbatim>\<open>get_me\<close> returns; every field may be \<^verbatim>\<open>None\<close>.\<close>

record me =
  first_name :: "string option"
  last_name :: "string option"
  username_of :: "string option"

text \<open>
  Every call of the client library (the constructor \<^verbatim>\<open>TelegramClient(...)\<close> included) and
  every \<^verbatim>\<open>asyncio.sleep\<close> is recorded, in order, in a trace; every record given to
  \<^verbatim>\<open>logger\<close> is recorded in a log.
\<close>

datatype event =
    NewClient string int "string option"
  | Start "string option"
  | GetMe
  | GetEntity string
  | SendMessage entity string
  | Sleep int

fun is_Sleep :: "event \<Rightarrow> bool" where
  "is_Sleep (Sleep d) = True"
| "is_Sleep (NewClient n i h) = False"
| "is_Sleep (Start p) = False"
| "is_Sleep GetMe = False"
| "is_Sleep (GetEntity u) = False"
| "is_Sleep (SendMessage e m) = False"

fun is_SendMessage :: "event \<Rightarrow> bool" where
  "is_SendMessage (SendMessage e m) = True"
| "is_SendMessage (NewClient n i h) = False"
| "is_SendMessage (Start p) = False"
| "is_SendMessage GetMe = False"
| "is_SendMessage (GetEntity u) = False"
| "is_SendMessage (Sleep d) = False"

datatype level = INFO | WARNING | ERROR

type_synonym log_record = "level \<times> string"

record world =
  trace :: "event list"
  logged :: "log_record list"

definition logger :: "level \<Rightarrow> string \<Rightarrow> world \<Rightarrow> world" where
  "logger lv msg w = w\<lparr>logged := logged w @ [(lv, msg)]\<rparr>"

definition call :: "event \<Rightarrow> world \<Rightarrow> world" where
  "call ev w = w\<lparr>trace := trace w @ [ev]\<rparr>"

text \<open>
  The client library is a parameter: what each of its calls answers is any function of
  the calls made so far and of the arguments. \<open>Inl e\<close> (for a call without result,
  \<open>Some e\<close>) is the exception the call raises.
\<close>

record client =
  client_new :: "event list \<Rightarrow> string \<Rightarrow> int \<Rightarrow> string option \<Rightarrow> py_exception option"
  client_start :: "event list \<Rightarrow> string option \<Rightarrow> py_exception option"
  client_get_me :: "event list \<Rightarrow> py_exception + me"
  client_get_entity :: "event list \<Rightarrow> string \<Rightarrow> py_exception + entity"
  client_send_message :: "event list \<Rightarrow> entity \<Rightarrow> string \<Rightarrow> py_exception option"

section \<open>\<^verbatim>\<open>telegram_sender.py\<close>: resolving and sending\<close>

text \<open>
  The \<^verbatim>\<open>except\<close> clauses of \<^verbatim>\<open>resolve_username\<close>, in the order of the source; each
  logs an error and returns \<^verbatim>\<open>None\<close>.
\<close>

fun resolve_username_except :: "string \<Rightarrow> py_exception \<Rightarrow> string" where
  "resolve_username_except clean_username (UsernameNotOccupiedError s) =
     ''Username @'' @ clean_username @ '' not found''"
| "resolve_username_except clean_username (UsernameInvalidError s) =
     ''Username @'' @ clean_username @ '' is invalid''"
| "resolve_username_except clean_username e =
     ''Error resolving username @'' @ clean_username @ '': '' @ str_exc e"

definition resolve_username ::
  "client \<Rightarrow> world \<Rightarrow> string \<Rightarrow> (py_exception + entity option) \<times> world" where
  "resolve_username c w username =
     (let clean_username = lstrip username ''@'';
          w1 = call (GetEntity clean_username) w
      in case client_get_entity c (trace w) clean_username of
           Inr entity \<Rightarrow>
             if isinstance_User entity then (Inr (Some entity), w1)
             else (Inr None,
                   logger WARNING
                     (''@'' @ clean_username @ '' is not a user (might be a channel or group)'') w1)
         | Inl e \<Rightarrow>
             (Inr None, logger ERROR (resolve_username_except clean_username e) w1))"

text \<open>The \<^verbatim>\<open>except\<close> clauses of \<^verbatim>\<open>send_message\<close>; each logs an error and returns \<^verbatim>\<open>False\<close>.\<close>

fun send_message_except :: "string \<Rightarrow> py_exception \<Rightarrow> string" where
  "send_message_except username (FloodWaitError secs s) =
     ''Rate limited. Need to wait '' @ str_int secs @ '' seconds''"
| "send_message_except username (PeerFloodError s) =
     ''Too many requests. Please try again later''"
| "send_message_except username e =
     ''Failed to send message to @'' @ username @ '': '' @ str_exc e"

definition send_message ::
  "client \<Rightarrow> world \<Rightarrow> string \<Rightarrow> string \<Rightarrow> (py_exception + bool) \<times> world" where
  "send_message c w username message =
     (case resolve_username c w username of
        (Inl e, w1) \<Rightarrow> (Inl e, w1)
      | (Inr None, w1) \<Rightarrow> (Inr False, w1)
      | (Inr (Some user), w1) \<Rightarrow>
          (let w2 = call (SendMessage user message) w1
           in case client_send_message c (trace w1) user message of
                None \<Rightarrow>
                  (Inr True, logger INFO (''Message sent successfully to @'' @ username) w2)
              | Some e \<Rightarrow>
                  (Inr False, logger ERROR (send_message_except username e) w2)))"

section \<open>\<^verbatim>\<open>telegram_sender.py\<close>: the bulk loop\<close>

record results =
  successful :: "string list"
  failed :: "string list"
  total :: nat

text \<open>
  The \<^verbatim>\<open>for\<close> loop of \<^verbatim>\<open>send_bulk_messages\<close>: one \<^verbatim>\<open>send_message\<close>, one append, and
  \<^verbatim>\<open>asyncio.sleep(delay)\<close> when \<^verbatim>\<open>delay > 0\<close>. An exception of \<^verbatim>\<open>send_message\<close>
  would leave the loop; the sleep itself is taken to return.
\<close>

fun bulk_loop ::
  "client \<Rightarrow> string \<Rightarrow> int \<Rightarrow> string list \<Rightarrow> results \<Rightarrow> world \<Rightarrow> (py_exception + results) \<times> world" where
  "bulk_loop c message delay [] res w = (Inr res, w)"
| "bulk_loop c message delay (username # rest) res w =
     (case send_message c w username message of
        (Inl e, w1) \<Rightarrow> (Inl e, w1)
      | (Inr success, w1) \<Rightarrow>
          (let res1 = (if success then res\<lparr>successful := successful res @ [username]\<rparr>
                       else res\<lparr>failed := failed res @ [username]\<rparr>);
               w2 = (if delay > 0 then call (Sleep delay) w1 else w1)
           in bulk_loop c message delay rest res1 w2))"

definition send_bulk_messages ::
  "client \<Rightarrow> world \<Rightarrow> string list \<Rightarrow> string \<Rightarrow> int \<Rightarrow> (py_exception + results) \<times> world" where
  "send_bulk_messages c w usernames message delay =
     (case bulk_loop c message delay usernames
             \<lparr>successful = [], failed = [], total = length usernames\<rparr> w of
        (Inl e, w1) \<Rightarrow> (Inl e, w1)
      | (Inr res, w1) \<Rightarrow>
          (Inr res,
           logger INFO
             (''Bulk messaging complete: '' @ str_nat (length (successful res)) @ ''/''
                @ str_nat (total res) @ '' successful'') w1))"

section \<open>\<^verbatim>\<open>config.py\<close>\<close>

text \<open>
  The process environment after \<^verbatim>\<open>load_dotenv()\<close>: \<^verbatim>\<open>os.getenv(k)\<close> is \<open>environ k\<close>,
  \<^verbatim>\<open>None\<close> for a variable that is not set.
\<close>

type_synonym environ = "string \<rightharpoonup> string"

record TelegramConfig =
  api_id :: "string option"
  api_hash :: "string option"
  phone_number :: "string option"
  session_name :: string

text \<open>Python's truth value of an optional string: \<^verbatim>\<open>None\<close> and the empty string are false.\<close>

definition truthy :: "string option \<Rightarrow> bool" where
  "truthy v = (case v of None \<Rightarrow> False | Some s \<Rightarrow> s \<noteq> [])"

definition missing_credentials :: "TelegramConfig \<Rightarrow> string list" where
  "missing_credentials self =
     (let m0 = [];
          m1 = (if \<not> truthy (api_id self) then m0 @ [''API_ID''] else m0);
          m2 = (if \<not> truthy (api_hash self) then m1 @ [''API_HASH''] else m1);
          m3 = (if \<not> truthy (phone_number self) then m2 @ [''PHONE_NUMBER''] else m2)
      in m3)"

text \<open>The \<^verbatim>\<open>ValueError\<close> that \<^verbatim>\<open>_validate_credentials\<close> raises; its message has two lines.\<close>

definition missing_credentials_error :: "string list \<Rightarrow> py_exception" where
  "missing_credentials_error missing =
     ValueError
       (''Missing required credentials: '' @ join '', '' missing @ [CHR 0x0A] @
        ''Please create a .env file based on .env.example and fill in your credentials.'')"

definition validate_credentials :: "TelegramConfig \<Rightarrow> py_exception + unit" where
  "validate_credentials self =
     (let missing = missing_credentials self
      in if missing \<noteq> [] then Inl (missing_credentials_error missing)
         else Inr ())"

definition TelegramConfig_init :: "environ \<Rightarrow> py_exception + TelegramConfig" where
  "TelegramConfig_init environ =
     (let self = \<lparr>api_id = environ ''API_ID'',
                  api_hash = environ ''API_HASH'',
                  phone_number = environ ''PHONE_NUMBER'',
                  session_name = (case environ ''SESSION_NAME'' of
                                    None \<Rightarrow> ''telegram_session'' | Some s \<Rightarrow> s)\<rparr>
      in case validate_credentials self of
           Inl e \<Rightarrow> Inl e
         | Inr u \<Rightarrow> Inr self)"

text \<open>
  \<^verbatim>\<open>get_api_id\<close>. Python's \<^verbatim>\<open>int(s)\<close> is the parameter \<open>py_int\<close>: \<open>None\<close> where it
  raises \<^verbatim>\<open>ValueError\<close>. \<^verbatim>\<open>int(None)\<close> raises \<^verbatim>\<open>TypeError\<close>; the handler turns both
  into the same \<^verbatim>\<open>ValueError\<close>.
\<close>

definition get_api_id :: "(string \<Rightarrow> int option) \<Rightarrow> TelegramConfig \<Rightarrow> py_exception + int" where
  "get_api_id py_int self =
     (case api_id self of
        None \<Rightarrow> Inl (ValueError ''API_ID must be a valid integer'')
      | Some s \<Rightarrow>
          (case py_int s of
             None \<Rightarrow> Inl (ValueError ''API_ID must be a valid integer'')
           | Some n \<Rightarrow> Inr n))"

definition get_api_hash :: "TelegramConfig \<Rightarrow> string option" where
  "get_api_hash self = api_hash self"

definition get_phone_number :: "TelegramConfig \<Rightarrow> string option" where
  "get_phone_number self = phone_number self"

definition get_session_name :: "TelegramConfig \<Rightarrow> string" where
  "get_session_name self = session_name self"

section \<open>\<^verbatim>\<open>telegram_sender.py\<close>: start-up\<close>

text \<open>
  A sender holds its configuration and the arguments its \<^verbatim>\<open>TelegramClient\<close> was made
  with. \<^verbatim>\<open>__init__\<close> evaluates \<^verbatim>\<open>get_session_name()\<close>, \<^verbatim>\<open>get_api_id()\<close> and
  \<^verbatim>\<open>get_api_hash()\<close>, then calls \<^verbatim>\<open>TelegramClient(...)\<close>, which may raise too; every
  exception of the \<^verbatim>\<open>try\<close> block is logged and raised again.
\<close>

record TelegramSender =
  config :: TelegramConfig
  client_session :: string
  client_api_id :: int
  client_api_hash :: "string option"

definition TelegramSender_init ::
  "(string \<Rightarrow> int option) \<Rightarrow> environ \<Rightarrow> client \<Rightarrow> world \<Rightarrow>
     (py_exception + TelegramSender) \<times> world" where
  "TelegramSender_init py_int environ c w =
     (case TelegramConfig_init environ of
        Inl e \<Rightarrow> (Inl e, logger ERROR (''Failed to initialize TelegramSender: '' @ str_exc e) w)
      | Inr cfg \<Rightarrow>
          (case get_api_id py_int cfg of
             Inl e \<Rightarrow>
               (Inl e, logger ERROR (''Failed to initialize TelegramSender: '' @ str_exc e) w)
           | Inr n \<Rightarrow>
               (let w1 = call (NewClient (get_session_name cfg) n (get_api_hash cfg)) w
                in case client_new c (trace w) (get_session_name cfg) n (get_api_hash cfg) of
                     Some e \<Rightarrow>
                       (Inl e,
                        logger ERROR (''Failed to initialize TelegramSender: '' @ str_exc e) w1)
                   | None \<Rightarrow>
                       (Inr \<lparr>config = cfg, client_session = get_session_name cfg,
                             client_api_id = n, client_api_hash = get_api_hash cfg\<rparr>, w1))))"

text \<open>An f-string field \<^verbatim>\<open>{x}\<close> and the expression \<^verbatim>\<open>x or d\<close>, for an optional string.\<close>

definition str_opt :: "string option \<Rightarrow> string" where
  "str_opt v = (case v of None \<Rightarrow> ''None'' | Some s \<Rightarrow> s)"

definition or_else :: "string option \<Rightarrow> string \<Rightarrow> string" where
  "or_else v d = (case v of None \<Rightarrow> d | Some s \<Rightarrow> (if s = [] then d else s))"

definition connect :: "client \<Rightarrow> TelegramSender \<Rightarrow> world \<Rightarrow> (py_exception + unit) \<times> world" where
  "connect c self w =
     (let phone = get_phone_number (config self);
          w1 = call (Start phone) w
      in case client_start c (trace w) phone of
           Some e \<Rightarrow> (Inl e, logger ERROR (''Failed to connect to Telegram: '' @ str_exc e) w1)
         | None \<Rightarrow>
             (let w2 = logger INFO ''Successfully connected to Telegram'' w1;
                  w3 = call GetMe w2
              in case client_get_me c (trace w2) of
                   Inl e \<Rightarrow>
                     (Inl e, logger ERROR (''Failed to connect to Telegram: '' @ str_exc e) w3)
                 | Inr me \<Rightarrow>
                     (Inr (),
                      logger INFO
                        (''Logged in as: '' @ str_opt (first_name me) @ '' '' @
                         or_else (last_name me) [] @ '' (@'' @
                         or_else (username_of me) ''no username'' @ '')'') w3)))"

text \<open>
  The first \<^verbatim>\<open>try\<close> block of \<^verbatim>\<open>main\<close>: make the sender, connect; on any exception log it
  and return exit code 1 (\<open>Inl 1\<close>).
\<close>

definition main_initialize ::
  "(string \<Rightarrow> int option) \<Rightarrow> environ \<Rightarrow> client \<Rightarrow> world \<Rightarrow> (int + TelegramSender) \<times> world" where
  "main_initialize py_int environ c w =
     (case TelegramSender_init py_int environ c w of
        (Inl e, w1) \<Rightarrow> (Inl 1, logger ERROR (''Failed to initialize: '' @ str_exc e) w1)
      | (Inr sender, w1) \<Rightarrow>
          (case connect c sender w1 of
             (Inl e, w2) \<Rightarrow> (Inl 1, logger ERROR (''Failed to initialize: '' @ str_exc e) w2)
           | (Inr u, w2) \<Rightarrow> (Inr sender, w2)))"

section \<open>Concrete inputs\<close>

text \<open>
  A client used in the examples: \<^verbatim>\<open>alice\<close>, \<^verbatim>\<open>bob\<close> and \<^verbatim>\<open>carol\<close> are users,
  \<^verbatim>\<open>news\<close> is a channel, \<^verbatim>\<open>a b\<close> is an invalid name, every other name is not
  occupied; sending to \<^verbatim>\<open>bob\<close> raises a flood wait of 30 seconds, sending to \<^verbatim>\<open>carol\<close>
  one of 60 seconds. Its constructor raises for an API id of 0 and for an absent or empty
  API hash.
\<close>

definition demo_client :: client where
  "demo_client =
     \<lparr>client_new = (\<lambda>tr name i h.
         if i = 0 then Some (ValueError ''Your API ID or Hash cannot be empty or None'')
         else if truthy h then None
         else Some (ValueError ''Your API ID or Hash cannot be empty or None'')),
      client_start = (\<lambda>tr phone. None),
      client_get_me = (\<lambda>tr. Inr \<lparr>first_name = Some ''Ann'', last_name = None,
                                  username_of = Some ''ann''\<rparr>),
      client_get_entity = (\<lambda>tr u.
         if u = ''alice'' then Inr (User 1)
         else if u = ''bob'' then Inr (User 2)
         else if u = ''carol'' then Inr (User 4)
         else if u = ''news'' then Inr (Channel 3)
         else if u = ''a b'' then Inl (UsernameInvalidError ''Nobody is using this username'')
         else Inl (UsernameNotOccupiedError ''The username is not in use by anyone else yet'')),
      client_send_message = (\<lambda>tr e m.
         if e = User 2 then Some (FloodWaitError 30 ''A wait of 30 seconds is required'')
         else if e = User 4 then Some (FloodWaitError 60 ''A wait of 60 seconds is required'')
         else None)\<rparr>"

definition empty_world :: world where
  "empty_world = \<lparr>trace = [], logged = []\<rparr>"

definition demo_environ :: environ where
  "demo_environ = [''API_ID'' \<mapsto> ''12345'', ''PHONE_NUMBER'' \<mapsto> ''+15550100'']"

definition demo_environ_bad_id :: environ where
  "demo_environ_bad_id =
     [''API_ID'' \<mapsto> ''abc'', ''API_HASH'' \<mapsto> ''0123abcd'', ''PHONE_NUMBER'' \<mapsto> ''+15550100'']"

definition demo_environ_zero_id :: environ where
  "demo_environ_zero_id =
     [''API_ID'' \<mapsto> ''0'', ''API_HASH'' \<mapsto> ''0123abcd'', ''PHONE_NUMBER'' \<mapsto> ''+15550100'']"

definition demo_int :: "string \<Rightarrow> int option" where
  "demo_int s =
     (if s = ''12345'' then Some 12345 else if s = ''0'' then Some 0 else None)"

section \<open>Properties of the send path and of the bulk loop\<close>

lemma lstrip_dropWhile: "lstrip s chars = dropWhile (\<lambda>c. c \<in> set chars) s"
  by (induction s) simp_all

lemma resolve_username_returns:
  "\<exists>r. fst (resolve_username c w username) = Inr r"
  by (simp add: resolve_username_def Let_def split: sum.split)

lemma resolve_username_trace:
  "trace (snd (resolve_username c w username)) = trace w @ [GetEntity (lstrip username ''@'')]"
  by (simp add: resolve_username_def Let_def call_def logger_def split: sum.split)

lemma send_message_returns:
  "\<exists>b w1. send_message c w username message = (Inr b, w1)"
  by (auto simp: send_message_def resolve_username_def Let_def split: sum.split option.split)

lemma send_message_attempt:
  "\<exists>b w1 evs. send_message c w username message = (Inr b, w1) \<and>
     trace w1 = trace w @ GetEntity (lstrip username ''@'') # evs \<and> filter is_Sleep evs = []"
  by (auto simp: send_message_def resolve_username_def Let_def call_def logger_def split: sum.split option.split)

lemma bulk_loop_results:
  "\<exists>res' w' bs. bulk_loop c message delay usernames res w = (Inr res', w') \<and>
     length bs = length usernames \<and>
     successful res' = successful res @ map fst (filter snd (zip usernames bs)) \<and>
     failed res' = failed res @ map fst (filter (\<lambda>p. \<not> snd p) (zip usernames bs)) \<and>
     total res' = total res"
proof (induction usernames arbitrary: res w)
  case Nil
  show ?case by simp
next
  case (Cons u us)
  obtain b w1 where sm: "send_message c w u message = (Inr b, w1)"
    using send_message_returns by blast
  define res1 where "res1 = (if b then res\<lparr>successful := successful res @ [u]\<rparr>
                       else res\<lparr>failed := failed res @ [u]\<rparr>)"
  define w2 where "w2 = (if delay > 0 then call (Sleep delay) w1 else w1)"
  have step: "bulk_loop c message delay (u # us) res w = bulk_loop c message delay us res1 w2"
    by (simp add: sm res1_def w2_def)
  from Cons.IH[of res1 w2] obtain res' w' bs where
    r: "bulk_loop c message delay us res1 w2 = (Inr res', w')" and
    l: "length bs = length us" and
    s: "successful res' = successful res1 @ map fst (filter snd (zip us bs))" and
    f: "failed res' = failed res1 @ map fst (filter (\<lambda>p. \<not> snd p) (zip us bs))" and
    t: "total res' = total res1"
    by blast
  have "bulk_loop c message delay (u # us) res w = (Inr res', w') \<and>
     length (b # bs) = length (u # us) \<and>
     successful res' = successful res @ map fst (filter snd (zip (u # us) (b # bs))) \<and>
     failed res' = failed res @ map fst (filter (\<lambda>p. \<not> snd p) (zip (u # us) (b # bs))) \<and>
     total res' = total res"
    using step r l s f t by (simp add: res1_def)
  then show ?case by blast
qed

lemma bulk_loop_trace_pos:
  "0 < delay \<Longrightarrow>
   \<exists>segs. list_all2 (\<lambda>u s. \<exists>evs. s = GetEntity (lstrip u ''@'') # evs \<and> filter is_Sleep evs = []) usernames segs \<and>
     trace (snd (bulk_loop c message delay usernames res w)) =
       trace w @ concat (map (\<lambda>s. s @ [Sleep delay]) segs)"
proof (induction usernames arbitrary: res w)
  case Nil
  show ?case by simp
next
  case (Cons u us)
  obtain b w1 evs where sm: "send_message c w u message = (Inr b, w1)"
    and tr: "trace w1 = trace w @ GetEntity (lstrip u ''@'') # evs" and ns: "filter is_Sleep evs = []"
    using send_message_attempt by blast
  define res1 where "res1 = (if b then res\<lparr>successful := successful res @ [u]\<rparr>
                       else res\<lparr>failed := failed res @ [u]\<rparr>)"
  have step: "bulk_loop c message delay (u # us) res w =
      bulk_loop c message delay us res1 (call (Sleep delay) w1)"
    using Cons.prems by (simp add: sm res1_def)
  from Cons.IH[OF Cons.prems, of res1 "call (Sleep delay) w1"] obtain segs where
    a: "list_all2 (\<lambda>u s. \<exists>evs. s = GetEntity (lstrip u ''@'') # evs \<and> filter is_Sleep evs = []) us segs" and
    t: "trace (snd (bulk_loop c message delay us res1 (call (Sleep delay) w1))) =
       trace (call (Sleep delay) w1) @ concat (map (\<lambda>s. s @ [Sleep delay]) segs)"
    by blast
  let ?seg = "GetEntity (lstrip u ''@'') # evs"
  have "list_all2 (\<lambda>u s. \<exists>evs. s = GetEntity (lstrip u ''@'') # evs \<and> filter is_Sleep evs = []) (u # us) (?seg # segs)"
    using a ns by simp
  moreover have "trace (snd (bulk_loop c message delay (u # us) res w)) =
       trace w @ concat (map (\<lambda>s. s @ [Sleep delay]) (?seg # segs))"
    using step t tr by (simp add: call_def)
  ultimately show ?case by blast
qed

lemma bulk_loop_trace_nonpos:
  "delay \<le> 0 \<Longrightarrow>
   filter is_Sleep (trace (snd (bulk_loop c message delay usernames res w))) = filter is_Sleep (trace w)"
proof (induction usernames arbitrary: res w)
  case Nil
  show ?case by simp
next
  case (Cons u us)
  obtain b w1 evs where sm: "send_message c w u message = (Inr b, w1)"
    and tr: "trace w1 = trace w @ GetEntity (lstrip u ''@'') # evs" and ns: "filter is_Sleep evs = []"
    using send_message_attempt by blast
  define res1 where "res1 = (if b then res\<lparr>successful := successful res @ [u]\<rparr>
                       else res\<lparr>failed := failed res @ [u]\<rparr>)"
  have step: "bulk_loop c message delay (u # us) res w = bulk_loop c message delay us res1 w1"
    using Cons.prems by (simp add: sm res1_def)
  show ?case
    using Cons.IH[OF Cons.prems, of res1 w1] step tr ns by simp
qed

lemma send_bulk_messages_trace:
  "trace (snd (send_bulk_messages c w usernames message delay)) =
   trace (snd (bulk_loop c message delay usernames \<lparr>successful = [], failed = [], total = length usernames\<rparr> w))"
  by (simp add: send_bulk_messages_def logger_def split: prod.split sum.split)

lemma send_bulk_messages_fst:
  "bulk_loop c message delay usernames \<lparr>successful = [], failed = [], total = length usernames\<rparr> w = (Inr res, w1)
   \<Longrightarrow> \<exists>w2. send_bulk_messages c w usernames message delay = (Inr res, w2) \<and> trace w2 = trace w1"
  by (simp add: send_bulk_messages_def logger_def)

lemma bulk_loop_append:
  "bulk_loop c message delay (xs @ ys) res w =
     (case bulk_loop c message delay xs res w of
        (Inl e, w1) \<Rightarrow> (Inl e, w1)
      | (Inr res1, w1) \<Rightarrow> bulk_loop c message delay ys res1 w1)"
proof (induction xs arbitrary: res w)
  case Nil
  show ?case by simp
next
  case (Cons u us)
  obtain b w1 where sm: "send_message c w u message = (Inr b, w1)"
    using send_message_returns by blast
  show ?case by (simp add: sm Cons.IH Let_def)
qed

lemma bulk_loop_prefix:
  assumes "bulk_loop c message delay usernames res w = (Inr res', w')"
  shows "prefix (successful res) (successful res') \<and> prefix (failed res) (failed res')"
  using bulk_loop_results[of c message delay usernames res w] assms by auto

lemma filter_zip_partition:
  assumes "length bs = length us"
  shows "mset (map fst (filter snd (zip us bs))) + mset (map fst (filter (\<lambda>p. \<not> snd p) (zip us bs))) = mset us"
    and "length (map fst (filter snd (zip us bs))) + length (map fst (filter (\<lambda>p. \<not> snd p) (zip us bs))) = length us"
proof -
  have "mset (filter snd (zip us bs)) + mset (filter (\<lambda>p. \<not> snd p) (zip us bs)) = mset (zip us bs)"
    by simp
  then have "image_mset fst (mset (filter snd (zip us bs)) + mset (filter (\<lambda>p. \<not> snd p) (zip us bs)))
      = image_mset fst (mset (zip us bs))" by simp
  moreover have "map fst (zip us bs) = us" using assms by simp
  ultimately show "mset (map fst (filter snd (zip us bs))) + mset (map fst (filter (\<lambda>p. \<not> snd p) (zip us bs))) = mset us"
    by (metis image_mset_union mset_map)
  have "length (filter snd (zip us bs)) + length (filter (\<lambda>p. \<not> snd p) (zip us bs)) = length (zip us bs)"
    by (rule sum_length_filter_compl)
  then show "length (map fst (filter snd (zip us bs))) + length (map fst (filter (\<lambda>p. \<not> snd p) (zip us bs))) = length us"
    using assms by simp
qed

lemma bulk_loop_step:
  assumes "send_message c w username message = (Inr b, w1)"
  shows "bulk_loop c message delay (username # rest) res w =
     bulk_loop c message delay rest
       (if b then res\<lparr>successful := successful res @ [username]\<rparr>
        else res\<lparr>failed := failed res @ [username]\<rparr>)
       (if 0 < delay then call (Sleep delay) w1 else w1)"
  using assms by (simp add: Let_def)

lemma segments_sleeps:
  assumes "list_all2 (\<lambda>u s. \<exists>evs. s = GetEntity (f u) # evs \<and> filter is_Sleep evs = []) us segs"
  shows "filter is_Sleep (concat (map (\<lambda>s. s @ [Sleep d]) segs)) = replicate (length us) (Sleep d)"
  using assms by (induction rule: list_all2_induct) auto

lemma segments_last:
  assumes "segs \<noteq> []"
  shows "last (xs @ concat (map (\<lambda>s. s @ [Sleep d]) segs)) = Sleep d"
  using assms by (cases segs rule: rev_cases) simp_all

text \<open>What the resolver logs and returns for each kind of failure of the lookup.\<close>

lemma resolve_username_not_found:
  assumes "client_get_entity c (trace w) (lstrip username ''@'') = Inl (UsernameNotOccupiedError s)"
  shows "resolve_username c w username =
     (Inr None, logger ERROR (''Username @'' @ lstrip username ''@'' @ '' not found'')
                  (call (GetEntity (lstrip username ''@'')) w))"
  using assms by (simp add: resolve_username_def Let_def)

lemma resolve_username_invalid:
  assumes "client_get_entity c (trace w) (lstrip username ''@'') = Inl (UsernameInvalidError s)"
  shows "resolve_username c w username =
     (Inr None, logger ERROR (''Username @'' @ lstrip username ''@'' @ '' is invalid'')
                  (call (GetEntity (lstrip username ''@'')) w))"
  using assms by (simp add: resolve_username_def Let_def)

lemma resolve_username_not_a_user:
  assumes "client_get_entity c (trace w) (lstrip username ''@'') = Inr ent"
    and "\<not> isinstance_User ent"
  shows "resolve_username c w username =
     (Inr None, logger WARNING
                  (''@'' @ lstrip username ''@'' @ '' is not a user (might be a channel or group)'')
                  (call (GetEntity (lstrip username ''@'')) w))"
  using assms by (simp add: resolve_username_def Let_def)

lemma resolve_username_other_error:
  assumes "client_get_entity c (trace w) (lstrip username ''@'') = Inl e"
    and "e = FloodWaitError n s \<or> e = PeerFloodError s \<or> e = ValueError s \<or> e = OtherException s"
  shows "resolve_username c w username =
     (Inr None, logger ERROR
                  (''Error resolving username @'' @ lstrip username ''@'' @ '': '' @ s)
                  (call (GetEntity (lstrip username ''@'')) w))"
  using assms by (auto simp: resolve_username_def Let_def)

lemma resolve_username_found:
  assumes "client_get_entity c (trace w) (lstrip username ''@'') = Inr user"
    and "isinstance_User user"
  shows "resolve_username c w username = (Inr (Some user), call (GetEntity (lstrip username ''@'')) w)"
  using assms by (simp add: resolve_username_def Let_def)

section \<open>Claims about sending\<close>

text \<open>
  C1. For every batch, message and delay, \<^verbatim>\<open>send_bulk_messages\<close> returns a result whose
  \<open>total\<close> is the length of the input and whose two lists have \<open>total\<close> elements together.
  There is one Boolean per input position that sends the handle at that position to
  \<open>successful\<close> (true) or to \<open>failed\<close> (false): every occurrence of a handle is in exactly one
  of the two lists, in input order, and the two lists together are the input as a multiset.
\<close>

theorem send_bulk_messages_partition:
  "\<exists>res w' bs. send_bulk_messages c w usernames message delay = (Inr res, w') \<and>
     total res = length usernames \<and>
     length (successful res) + length (failed res) = total res \<and>
     length bs = length usernames \<and>
     successful res = map fst (filter snd (zip usernames bs)) \<and>
     failed res = map fst (filter (\<lambda>p. \<not> snd p) (zip usernames bs)) \<and>
     mset (successful res) + mset (failed res) = mset usernames"
proof -
  let ?r0 = "\<lparr>successful = [], failed = [], total = length usernames\<rparr>"
  from bulk_loop_results[of c message delay usernames ?r0 w] obtain res w1 bs where
    r: "bulk_loop c message delay usernames ?r0 w = (Inr res, w1)" and
    l: "length bs = length usernames" and
    s: "successful res = map fst (filter snd (zip usernames bs))" and
    f: "failed res = map fst (filter (\<lambda>p. \<not> snd p) (zip usernames bs))" and
    t: "total res = length usernames"
    by auto
  from send_bulk_messages_fst[OF r] obtain w2 where
    sb: "send_bulk_messages c w usernames message delay = (Inr res, w2)" by blast
  have m: "mset (successful res) + mset (failed res) = mset usernames"
    and n: "length (successful res) + length (failed res) = length usernames"
    using filter_zip_partition[OF l] s f by simp_all
  show ?thesis using sb t n l s f m by auto
qed



section \<open>Claims about the delay\<close>

text \<open>
  C4. For every non-empty batch of \<open>k\<close> handles and every delay greater than zero, the batch
  sleeps for the delay after every attempt, the last one included: the calls of the batch are
  \<open>k\<close> segments, one per handle in input order, each the calls of one attempt (its lookup
  first, no sleep) followed by one sleep of the delay. So there are exactly \<open>k\<close> sleeps and
  the last event of the batch is a sleep.
\<close>

theorem bulk_delay_after_every_attempt:
  assumes "usernames \<noteq> []" and "0 < delay"
  shows "\<exists>segs.
      list_all2 (\<lambda>u s. \<exists>evs. s = GetEntity (lstrip u ''@'') # evs \<and> filter is_Sleep evs = [])
        usernames segs \<and>
      trace (snd (send_bulk_messages c w usernames message delay)) =
        trace w @ concat (map (\<lambda>s. s @ [Sleep delay]) segs) \<and>
      filter is_Sleep (trace (snd (send_bulk_messages c w usernames message delay))) =
        filter is_Sleep (trace w) @ replicate (length usernames) (Sleep delay) \<and>
      last (trace (snd (send_bulk_messages c w usernames message delay))) = Sleep delay"
proof -
  let ?r0 = "\<lparr>successful = [], failed = [], total = length usernames\<rparr>"
  let ?t = "trace (snd (send_bulk_messages c w usernames message delay))"
  from bulk_loop_trace_pos[OF assms(2), of usernames c message ?r0 w] obtain segs where
    a: "list_all2 (\<lambda>u s. \<exists>evs. s = GetEntity (lstrip u ''@'') # evs \<and> filter is_Sleep evs = [])
          usernames segs" and
    t: "trace (snd (bulk_loop c message delay usernames ?r0 w)) =
          trace w @ concat (map (\<lambda>s. s @ [Sleep delay]) segs)"
    by blast
  have t': "?t = trace w @ concat (map (\<lambda>s. s @ [Sleep delay]) segs)"
    using t by (simp add: send_bulk_messages_trace)
  have "length segs = length usernames"
    using a by (simp add: list_all2_lengthD)
  then have ne: "segs \<noteq> []" using assms(1) by auto
  have f: "filter is_Sleep ?t = filter is_Sleep (trace w) @ replicate (length usernames) (Sleep delay)"
    unfolding t' using segments_sleeps[OF a, of delay] by simp
  have l: "last ?t = Sleep delay"
    unfolding t' by (rule segments_last[OF ne])
  show ?thesis using a t' f l by blast
qed

theorem bulk_delay_after_every_attempt_witness:
  "[''alice'', ''zed''] \<noteq> [] \<and> (0::int) < 2 \<and>
   filter is_Sleep (trace (snd (send_bulk_messages demo_client empty_world [''alice'', ''zed''] ''hi'' 2)))
     = [Sleep 2, Sleep 2] \<and>
   last (trace (snd (send_bulk_messages demo_client empty_world [''alice'', ''zed''] ''hi'' 2))) = Sleep 2"
proof -
  have h1: "[''alice'', ''zed''] \<noteq> []" by simp
  have h2: "(0::int) < 2" by simp
  from bulk_delay_after_every_attempt[OF h1 h2, of demo_client empty_world "''hi''"]
  show ?thesis by (auto simp: empty_world_def numeral_2_eq_2)
qed

text \<open>
  C10. For every batch, every message and every delay that is zero or negative, the batch
  does not sleep at all, and it still returns the complete result for the whole input.
\<close>

theorem bulk_no_delay_when_not_positive:
  assumes "delay \<le> 0"
  shows "\<exists>res w'. send_bulk_messages c w usernames message delay = (Inr res, w') \<and>
     total res = length usernames \<and>
     length (successful res) + length (failed res) = length usernames \<and>
     mset (successful res) + mset (failed res) = mset usernames \<and>
     filter is_Sleep (trace w') = filter is_Sleep (trace w)"
proof -
  let ?r0 = "\<lparr>successful = [], failed = [], total = length usernames\<rparr>"
  from bulk_loop_results[of c message delay usernames ?r0 w] obtain res w1 bs where
    r: "bulk_loop c message delay usernames ?r0 w = (Inr res, w1)" and
    l: "length bs = length usernames" and
    s: "successful res = map fst (filter snd (zip usernames bs))" and
    f: "failed res = map fst (filter (\<lambda>p. \<not> snd p) (zip usernames bs))" and
    t: "total res = length usernames"
    by auto
  from send_bulk_messages_fst[OF r] obtain w2 where
    sb: "send_bulk_messages c w usernames message delay = (Inr res, w2)" and
    tr: "trace w2 = trace w1" by blast
  have m: "mset (successful res) + mset (failed res) = mset usernames"
    and n: "length (successful res) + length (failed res) = length usernames"
    using filter_zip_partition[OF l] s f by simp_all
  have "filter is_Sleep (trace w1) = filter is_Sleep (trace w)"
    using bulk_loop_trace_nonpos[OF assms, of c message usernames ?r0 w] r by simp
  then show ?thesis using sb tr t n m by auto
qed

theorem bulk_no_delay_when_not_positive_witness:
  "(- 3::int) \<le> 0 \<and>
   (\<exists>res w'. send_bulk_messages demo_client empty_world [''alice'', ''zed''] ''hi'' (- 3) = (Inr res, w') \<and>
     total res = 2 \<and> length (successful res) + length (failed res) = 2 \<and>
     mset (successful res) + mset (failed res) = mset [''alice'', ''zed''] \<and>
     filter is_Sleep (trace w') = [])"
proof -
  have h: "(- 3::int) \<le> 0" by simp
  from bulk_no_delay_when_not_positive[OF h, of demo_client empty_world "[''alice'', ''zed'']" "''hi''"]
  show ?thesis by (simp add: empty_world_def numeral_2_eq_2)
qed

section \<open>Claims about one send\<close>

text \<open>
  C2, as stated, fails: \<^verbatim>\<open>send_message\<close> returns no outcome that corresponds to the kind of
  the resolution failure. For a name that is not occupied and for a name that is a channel
  it returns the same value, false.
\<close>

theorem resolution_failure_outcome_counterexample:
  "client_get_entity demo_client (trace empty_world) (lstrip ''zed'' ''@'') =
     Inl (UsernameNotOccupiedError ''The username is not in use by anyone else yet'') \<and>
   client_get_entity demo_client (trace empty_world) (lstrip ''news'' ''@'') = Inr (Channel 3) \<and>
   fst (send_message demo_client empty_world ''zed'' ''hi'') = Inr False \<and>
   fst (send_message demo_client empty_world ''news'' ''hi'') = Inr False"
  by (simp add: send_message_def resolve_username_def demo_client_def empty_world_def
        call_def logger_def Let_def)

text \<open>
  C2, amended. For every handle and message, if the lookup raises any exception (not found,
  invalid, any other) or returns an entity that is not a user, then resolution fails and
  \<^verbatim>\<open>send_message\<close> returns false, the same result for every kind of failure; it leaves
  exactly what the resolver left (its one lookup call and its one log record, which alone
  tells the kind), and the send capability is not called.
\<close>

theorem resolution_failure_short_circuits:
  assumes "case client_get_entity c (trace w) (lstrip username ''@'') of
             Inl e \<Rightarrow> True | Inr ent \<Rightarrow> \<not> isinstance_User ent"
  shows "fst (resolve_username c w username) = Inr None \<and>
     send_message c w username message = (Inr False, snd (resolve_username c w username)) \<and>
     trace (snd (send_message c w username message)) =
       trace w @ [GetEntity (lstrip username ''@'')] \<and>
     filter is_SendMessage (trace (snd (send_message c w username message))) =
       filter is_SendMessage (trace w)"
proof -
  have r: "fst (resolve_username c w username) = Inr None"
    using assms
    by (cases "client_get_entity c (trace w) (lstrip username ''@'')")
       (simp_all add: resolve_username_def Let_def)
  then have s: "send_message c w username message = (Inr False, snd (resolve_username c w username))"
    by (cases "resolve_username c w username") (simp add: send_message_def)
  have t: "trace (snd (send_message c w username message)) =
       trace w @ [GetEntity (lstrip username ''@'')]"
    by (simp add: s resolve_username_trace)
  show ?thesis using r s t by simp
qed

theorem resolution_failure_short_circuits_witness:
  "(case client_get_entity demo_client (trace empty_world) (lstrip ''@news'' ''@'') of
      Inl e \<Rightarrow> True | Inr ent \<Rightarrow> \<not> isinstance_User ent) \<and>
   fst (send_message demo_client empty_world ''@news'' ''hi'') = Inr False \<and>
   trace (snd (send_message demo_client empty_world ''@news'' ''hi'')) = [GetEntity ''news''] \<and>
   filter is_SendMessage (trace (snd (send_message demo_client empty_world ''@news'' ''hi''))) = []"
proof -
  have h: "case client_get_entity demo_client (trace empty_world) (lstrip ''@news'' ''@'') of
      Inl e \<Rightarrow> True | Inr ent \<Rightarrow> \<not> isinstance_User ent"
    by (simp add: demo_client_def)
  from resolution_failure_short_circuits[OF h, of "''hi''"] h
  show ?thesis by (simp add: empty_world_def resolve_username_trace)
qed

text \<open>
  C7, as stated, fails: what \<^verbatim>\<open>send_message\<close> returns does not carry the seconds of the
  flood wait. For a wait of 30 seconds and for a wait of 60 seconds it returns the same
  value, false.
\<close>

theorem flood_wait_outcome_counterexample:
  "client_get_entity demo_client (trace empty_world) (lstrip ''bob'' ''@'') = Inr (User 2) \<and>
   client_send_message demo_client (trace empty_world @ [GetEntity (lstrip ''bob'' ''@'')])
       (User 2) ''hi'' = Some (FloodWaitError 30 ''A wait of 30 seconds is required'') \<and>
   client_get_entity demo_client (trace empty_world) (lstrip ''carol'' ''@'') = Inr (User 4) \<and>
   client_send_message demo_client (trace empty_world @ [GetEntity (lstrip ''carol'' ''@'')])
       (User 4) ''hi'' = Some (FloodWaitError 60 ''A wait of 60 seconds is required'') \<and>
   fst (send_message demo_client empty_world ''bob'' ''hi'') = Inr False \<and>
   fst (send_message demo_client empty_world ''carol'' ''hi'') = Inr False"
  by (simp add: send_message_def resolve_username_def demo_client_def empty_world_def
        call_def logger_def Let_def)

text \<open>
  C7, amended. At any position of a batch: if the handle resolves to a user and the send
  raises a flood wait of \<open>n\<close> seconds, then \<^verbatim>\<open>send_message\<close> returns false, the result of
  every failed attempt; it has made one lookup, exactly one send and no sleep, and the
  seconds \<open>n\<close> are in the one error record it logs. The batch appends the handle to \<open>failed\<close>
  and goes on with the rest.
\<close>

theorem flood_wait_reported_not_retried:
  assumes "bulk_loop c message delay pre
             \<lparr>successful = [], failed = [], total = length (pre @ username # rest)\<rparr> w0 = (Inr res, w)"
    and "client_get_entity c (trace w) (lstrip username ''@'') = Inr user"
    and "isinstance_User user"
    and "client_send_message c (trace w @ [GetEntity (lstrip username ''@'')]) user message =
           Some (FloodWaitError n s)"
  shows "send_message c w username message =
       (Inr False,
        logger ERROR (''Rate limited. Need to wait '' @ str_int n @ '' seconds'')
          (call (SendMessage user message) (call (GetEntity (lstrip username ''@'')) w))) \<and>
     trace (snd (send_message c w username message)) =
       trace w @ [GetEntity (lstrip username ''@''), SendMessage user message] \<and>
     logged (snd (send_message c w username message)) =
       logged w @ [(ERROR, ''Rate limited. Need to wait '' @ str_int n @ '' seconds'')] \<and>
     bulk_loop c message delay (pre @ username # rest)
         \<lparr>successful = [], failed = [], total = length (pre @ username # rest)\<rparr> w0 =
       bulk_loop c message delay rest (res\<lparr>failed := failed res @ [username]\<rparr>)
         (if 0 < delay then call (Sleep delay) (snd (send_message c w username message))
          else snd (send_message c w username message)) \<and>
     (\<exists>res' w'. send_bulk_messages c w0 (pre @ username # rest) message delay = (Inr res', w') \<and>
        prefix (failed res @ [username]) (failed res') \<and>
        prefix (successful res) (successful res'))"
proof -
  let ?r0 = "\<lparr>successful = [], failed = [], total = length (pre @ username # rest)\<rparr>"
  let ?w1 = "logger ERROR (''Rate limited. Need to wait '' @ str_int n @ '' seconds'')
          (call (SendMessage user message) (call (GetEntity (lstrip username ''@'')) w))"
  let ?w2 = "if 0 < delay then call (Sleep delay) ?w1 else ?w1"
  have sm: "send_message c w username message = (Inr False, ?w1)"
    using assms(4) by (simp add: send_message_def resolve_username_found[OF assms(2,3)] call_def)
  have tr: "trace ?w1 = trace w @ [GetEntity (lstrip username ''@''), SendMessage user message]"
    by (simp add: logger_def call_def)
  have lg: "logged ?w1 = logged w @ [(ERROR, ''Rate limited. Need to wait '' @ str_int n @ '' seconds'')]"
    by (simp add: logger_def call_def)
  have "bulk_loop c message delay (pre @ username # rest) ?r0 w0 =
      bulk_loop c message delay (username # rest) res w"
    by (subst bulk_loop_append) (simp only: assms(1) prod.case sum.case)
  also have "\<dots> = bulk_loop c message delay rest (res\<lparr>failed := failed res @ [username]\<rparr>) ?w2"
    using bulk_loop_step[OF sm, of delay rest res] by (simp only: if_False)
  finally have step: "bulk_loop c message delay (pre @ username # rest) ?r0 w0 =
      bulk_loop c message delay rest (res\<lparr>failed := failed res @ [username]\<rparr>) ?w2" .
  obtain res' w1 where fin:
    "bulk_loop c message delay rest (res\<lparr>failed := failed res @ [username]\<rparr>) ?w2 = (Inr res', w1)"
    using bulk_loop_results[of c message delay rest "res\<lparr>failed := failed res @ [username]\<rparr>" ?w2]
    by blast
  have pf: "prefix (failed res @ [username]) (failed res')" and ps: "prefix (successful res) (successful res')"
    using bulk_loop_prefix[OF fin] by simp_all
  from step fin have "bulk_loop c message delay (pre @ username # rest) ?r0 w0 = (Inr res', w1)"
    by simp
  from send_bulk_messages_fst[OF this] obtain w' where
    "send_bulk_messages c w0 (pre @ username # rest) message delay = (Inr res', w')" by blast
  then have ex: "\<exists>res' w'. send_bulk_messages c w0 (pre @ username # rest) message delay = (Inr res', w') \<and>
        prefix (failed res @ [username]) (failed res') \<and>
        prefix (successful res) (successful res')"
    using pf ps by blast
  show ?thesis using sm tr lg step ex by simp
qed

theorem flood_wait_reported_not_retried_witness:
  "bulk_loop demo_client ''hi'' 0 [''alice'']
       \<lparr>successful = [], failed = [], total = length ([''alice''] @ ''@bob'' # [''news''])\<rparr>
       empty_world =
     (Inr \<lparr>successful = [''alice''], failed = [], total = 3\<rparr>,
      \<lparr>trace = [GetEntity ''alice'', SendMessage (User 1) ''hi''],
       logged = [(INFO, ''Message sent successfully to @alice'')]\<rparr>) \<and>
   client_get_entity demo_client [GetEntity ''alice'', SendMessage (User 1) ''hi'']
       (lstrip ''@bob'' ''@'') = Inr (User 2) \<and>
   isinstance_User (User 2) \<and>
   client_send_message demo_client
       ([GetEntity ''alice'', SendMessage (User 1) ''hi''] @ [GetEntity (lstrip ''@bob'' ''@'')])
       (User 2) ''hi'' = Some (FloodWaitError 30 ''A wait of 30 seconds is required'') \<and>
   send_message demo_client
       \<lparr>trace = [GetEntity ''alice'', SendMessage (User 1) ''hi''],
        logged = [(INFO, ''Message sent successfully to @alice'')]\<rparr> ''@bob'' ''hi'' =
     (Inr False,
      \<lparr>trace = [GetEntity ''alice'', SendMessage (User 1) ''hi'',
                GetEntity ''bob'', SendMessage (User 2) ''hi''],
       logged = [(INFO, ''Message sent successfully to @alice''),
                 (ERROR, ''Rate limited. Need to wait 30 seconds'')]\<rparr>) \<and>
   (\<exists>res' w'. send_bulk_messages demo_client empty_world [''alice'', ''@bob'', ''news''] ''hi'' 0 =
        (Inr res', w') \<and>
      prefix [''@bob''] (failed res') \<and> prefix [''alice''] (successful res'))"
proof -
  let ?w = "\<lparr>trace = [GetEntity ''alice'', SendMessage (User 1) ''hi''],
       logged = [(INFO, ''Message sent successfully to @alice'')]\<rparr>"
  have h1: "bulk_loop demo_client ''hi'' 0 [''alice'']
       \<lparr>successful = [], failed = [], total = length ([''alice''] @ ''@bob'' # [''news''])\<rparr>
       empty_world = (Inr \<lparr>successful = [''alice''], failed = [], total = 3\<rparr>, ?w)"
    by (simp add: send_message_def resolve_username_def demo_client_def empty_world_def
          call_def logger_def Let_def)
  have h2: "client_get_entity demo_client (trace ?w) (lstrip ''@bob'' ''@'') = Inr (User 2)"
    by (simp add: demo_client_def)
  have h3: "isinstance_User (User 2)" by simp
  have h4: "client_send_message demo_client (trace ?w @ [GetEntity (lstrip ''@bob'' ''@'')])
       (User 2) ''hi'' = Some (FloodWaitError 30 ''A wait of 30 seconds is required'')"
    by (simp add: demo_client_def)
  have n: "str_int 30 = ''30''"
    by (simp add: str_int_def str_nat.simps[of 30] str_nat.simps[of 3])
  from flood_wait_reported_not_retried[OF h1 h2 h3 h4] h1 h2 h3 h4
  show ?thesis by (simp add: n call_def logger_def)
qed

text \<open>
  C8. At any position of a batch: if the handle resolves to a user and the send completes
  without an exception, then \<^verbatim>\<open>send_message\<close> returns true (sent), having made one lookup
  and one send, and the batch appends the handle to \<open>successful\<close> and goes on with the rest.
\<close>

theorem successful_send_recorded:
  assumes "bulk_loop c message delay pre
             \<lparr>successful = [], failed = [], total = length (pre @ username # rest)\<rparr> w0 = (Inr res, w)"
    and "client_get_entity c (trace w) (lstrip username ''@'') = Inr user"
    and "isinstance_User user"
    and "client_send_message c (trace w @ [GetEntity (lstrip username ''@'')]) user message = None"
  shows "send_message c w username message =
       (Inr True,
        logger INFO (''Message sent successfully to @'' @ username)
          (call (SendMessage user message) (call (GetEntity (lstrip username ''@'')) w))) \<and>
     trace (snd (send_message c w username message)) =
       trace w @ [GetEntity (lstrip username ''@''), SendMessage user message] \<and>
     bulk_loop c message delay (pre @ username # rest)
         \<lparr>successful = [], failed = [], total = length (pre @ username # rest)\<rparr> w0 =
       bulk_loop c message delay rest (res\<lparr>successful := successful res @ [username]\<rparr>)
         (if 0 < delay then call (Sleep delay) (snd (send_message c w username message))
          else snd (send_message c w username message)) \<and>
     (\<exists>res' w'. send_bulk_messages c w0 (pre @ username # rest) message delay = (Inr res', w') \<and>
        prefix (successful res @ [username]) (successful res') \<and>
        prefix (failed res) (failed res'))"
proof -
  let ?r0 = "\<lparr>successful = [], failed = [], total = length (pre @ username # rest)\<rparr>"
  let ?w1 = "logger INFO (''Message sent successfully to @'' @ username)
          (call (SendMessage user message) (call (GetEntity (lstrip username ''@'')) w))"
  let ?w2 = "if 0 < delay then call (Sleep delay) ?w1 else ?w1"
  have sm: "send_message c w username message = (Inr True, ?w1)"
    using assms(4) by (simp add: send_message_def resolve_username_found[OF assms(2,3)] call_def)
  have tr: "trace ?w1 = trace w @ [GetEntity (lstrip username ''@''), SendMessage user message]"
    by (simp add: logger_def call_def)
  have "bulk_loop c message delay (pre @ username # rest) ?r0 w0 =
      bulk_loop c message delay (username # rest) res w"
    by (subst bulk_loop_append) (simp only: assms(1) prod.case sum.case)
  also have "\<dots> = bulk_loop c message delay rest (res\<lparr>successful := successful res @ [username]\<rparr>) ?w2"
    using bulk_loop_step[OF sm, of delay rest res] by (simp only: if_True)
  finally have step: "bulk_loop c message delay (pre @ username # rest) ?r0 w0 =
      bulk_loop c message delay rest (res\<lparr>successful := successful res @ [username]\<rparr>) ?w2" .
  obtain res' w1 where fin:
    "bulk_loop c message delay rest (res\<lparr>successful := successful res @ [username]\<rparr>) ?w2 = (Inr res', w1)"
    using bulk_loop_results[of c message delay rest "res\<lparr>successful := successful res @ [username]\<rparr>" ?w2]
    by blast
  have ps: "prefix (successful res @ [username]) (successful res')" and pf: "prefix (failed res) (failed res')"
    using bulk_loop_prefix[OF fin] by simp_all
  from step fin have "bulk_loop c message delay (pre @ username # rest) ?r0 w0 = (Inr res', w1)"
    by simp
  from send_bulk_messages_fst[OF this] obtain w' where
    "send_bulk_messages c w0 (pre @ username # rest) message delay = (Inr res', w')" by blast
  then have ex: "\<exists>res' w'. send_bulk_messages c w0 (pre @ username # rest) message delay = (Inr res', w') \<and>
        prefix (successful res @ [username]) (successful res') \<and>
        prefix (failed res) (failed res')"
    using pf ps by blast
  show ?thesis using sm tr step ex by simp
qed

theorem successful_send_recorded_witness:
  "bulk_loop demo_client ''hi'' 1 [''zed'']
       \<lparr>successful = [], failed = [], total = length ([''zed''] @ ''@alice'' # [''bob''])\<rparr>
       empty_world =
     (Inr \<lparr>successful = [], failed = [''zed''], total = 3\<rparr>,
      \<lparr>trace = [GetEntity ''zed'', Sleep 1],
       logged = [(ERROR, ''Username @zed not found'')]\<rparr>) \<and>
   client_get_entity demo_client [GetEntity ''zed'', Sleep 1] (lstrip ''@alice'' ''@'') =
     Inr (User 1) \<and>
   isinstance_User (User 1) \<and>
   client_send_message demo_client
       ([GetEntity ''zed'', Sleep 1] @ [GetEntity (lstrip ''@alice'' ''@'')])
       (User 1) ''hi'' = None \<and>
   send_message demo_client
       \<lparr>trace = [GetEntity ''zed'', Sleep 1],
        logged = [(ERROR, ''Username @zed not found'')]\<rparr> ''@alice'' ''hi'' =
     (Inr True,
      \<lparr>trace = [GetEntity ''zed'', Sleep 1, GetEntity ''alice'', SendMessage (User 1) ''hi''],
       logged = [(ERROR, ''Username @zed not found''),
                 (INFO, ''Message sent successfully to @@alice'')]\<rparr>) \<and>
   (\<exists>res' w'. send_bulk_messages demo_client empty_world [''zed'', ''@alice'', ''bob''] ''hi'' 1 =
        (Inr res', w') \<and>
      prefix [''@alice''] (successful res') \<and> prefix [''zed''] (failed res'))"
proof -
  let ?w = "\<lparr>trace = [GetEntity ''zed'', Sleep 1],
       logged = [(ERROR, ''Username @zed not found'')]\<rparr>"
  have h1: "bulk_loop demo_client ''hi'' 1 [''zed'']
       \<lparr>successful = [], failed = [], total = length ([''zed''] @ ''@alice'' # [''bob''])\<rparr>
       empty_world = (Inr \<lparr>successful = [], failed = [''zed''], total = 3\<rparr>, ?w)"
    by (simp add: send_message_def resolve_username_def demo_client_def empty_world_def
          call_def logger_def Let_def)
  have h2: "client_get_entity demo_client (trace ?w) (lstrip ''@alice'' ''@'') = Inr (User 1)"
    by (simp add: demo_client_def)
  have h3: "isinstance_User (User 1)" by simp
  have h4: "client_send_message demo_client (trace ?w @ [GetEntity (lstrip ''@alice'' ''@'')])
       (User 1) ''hi'' = None"
    by (simp add: demo_client_def)
  from successful_send_recorded[OF h1 h2 h3 h4] h1 h2 h3 h4
  show ?thesis by (simp add: call_def logger_def)
qed

section \<open>Claims about the resolver\<close>

text \<open>
  C6. For every handle \<open>h\<close> and every behaviour of the lookup, resolving \<open>@h\<close> gives the
  same outcome as resolving \<open>h\<close>: the same result, the same lookup call and the same log
  records.
\<close>

theorem resolve_username_marker_irrelevant:
  "resolve_username c w (CHR ''@'' # h) = resolve_username c w h"
  by (simp add: resolve_username_def Let_def)

text \<open>
  C5, as stated, fails: the handle \<open>@@alice\<close> is looked up as \<open>alice\<close>, not as \<open>@alice\<close>.
\<close>

theorem normalization_two_markers_counterexample:
  "trace (snd (resolve_username demo_client empty_world ''@@alice'')) = [GetEntity ''alice''] \<and>
   trace (snd (resolve_username demo_client empty_world ''@@alice'')) \<noteq> [GetEntity ''@alice'']"
  by (simp add: resolve_username_def demo_client_def empty_world_def call_def)

text \<open>
  C5, amended. For every handle, resolution makes exactly one lookup call, and its argument
  is the handle without all of its leading \<open>@\<close> characters; nothing else is changed and
  nothing is checked before the call.
\<close>

theorem normalization_strips_all_markers:
  "trace (snd (resolve_username c w username)) =
     trace w @ [GetEntity (dropWhile (\<lambda>ch. ch = CHR ''@'') username)]"
  by (simp add: resolve_username_trace lstrip_dropWhile)

section \<open>Claims about start-up\<close>

lemma missing_credentials_environ:
  "missing_credentials
     \<lparr>api_id = environ ''API_ID'', api_hash = environ ''API_HASH'',
      phone_number = environ ''PHONE_NUMBER'', session_name = n\<rparr> =
   filter (\<lambda>k. \<not> truthy (environ k)) [''API_ID'', ''API_HASH'', ''PHONE_NUMBER'']"
  by (simp add: missing_credentials_def)

lemma TelegramConfig_init_missing:
  assumes "filter (\<lambda>k. \<not> truthy (environ k)) [''API_ID'', ''API_HASH'', ''PHONE_NUMBER''] \<noteq> []"
  shows "TelegramConfig_init environ =
     Inl (missing_credentials_error
            (filter (\<lambda>k. \<not> truthy (environ k)) [''API_ID'', ''API_HASH'', ''PHONE_NUMBER'']))"
  using assms
  unfolding TelegramConfig_init_def validate_credentials_def Let_def missing_credentials_environ
  by (simp only: not_False_eq_True if_True sum.case simp_thms)

lemma TelegramConfig_init_present:
  assumes "filter (\<lambda>k. \<not> truthy (environ k)) [''API_ID'', ''API_HASH'', ''PHONE_NUMBER''] = []"
  shows "TelegramConfig_init environ =
     Inr \<lparr>api_id = environ ''API_ID'', api_hash = environ ''API_HASH'',
          phone_number = environ ''PHONE_NUMBER'',
          session_name = (case environ ''SESSION_NAME'' of
                            None \<Rightarrow> ''telegram_session'' | Some s \<Rightarrow> s)\<rparr>"
  using assms
  unfolding TelegramConfig_init_def validate_credentials_def Let_def missing_credentials_environ
  by (simp only: not_False_eq_True if_False sum.case simp_thms)

lemma TelegramSender_init_client_raises:
  assumes "TelegramConfig_init environ = Inr cfg" and "get_api_id py_int cfg = Inr n"
    and "client_new c (trace w) (get_session_name cfg) n (get_api_hash cfg) = Some e"
  shows "TelegramSender_init py_int environ c w =
     (Inl e, logger ERROR (''Failed to initialize TelegramSender: '' @ str_exc e)
               (call (NewClient (get_session_name cfg) n (get_api_hash cfg)) w))"
  using assms by (simp add: TelegramSender_init_def Let_def)

text \<open>
  An example: an \<^verbatim>\<open>API_ID\<close> of 0 parses, the constructor of the client raises, and
  constructing the sender logs the exception and raises it again.
\<close>

lemma TelegramSender_init_zero_id_example:
  "TelegramSender_init demo_int demo_environ_zero_id demo_client empty_world =
     (Inl (ValueError ''Your API ID or Hash cannot be empty or None''),
      \<lparr>trace = [NewClient ''telegram_session'' 0 (Some ''0123abcd'')],
       logged = [(ERROR, ''Failed to initialize TelegramSender: '' @
                         ''Your API ID or Hash cannot be empty or None'')]\<rparr>)"
  by (simp add: TelegramSender_init_def TelegramConfig_init_def validate_credentials_def
        missing_credentials_def get_api_id_def get_session_name_def get_api_hash_def
        truthy_def demo_environ_zero_id_def demo_int_def demo_client_def empty_world_def
        call_def logger_def Let_def)

lemma main_initialize_fails:
  assumes "TelegramSender_init py_int environ c w = (Inl e, w1)"
  shows "main_initialize py_int environ c w =
     (Inl 1, logger ERROR (''Failed to initialize: '' @ str_exc e) w1)"
  using assms by (simp add: main_initialize_def)

text \<open>
  C9, as stated, fails: with the three variables present and an \<^verbatim>\<open>API_ID\<close> that is not an
  integer (\<^verbatim>\<open>abc\<close>), constructing the configuration succeeds.
\<close>

theorem configuration_unparsable_id_counterexample:
  "demo_environ_bad_id ''API_ID'' = Some ''abc'' \<and> demo_int ''abc'' = None \<and>
   TelegramConfig_init demo_environ_bad_id =
     Inr \<lparr>api_id = Some ''abc'', api_hash = Some ''0123abcd'',
          phone_number = Some ''+15550100'', session_name = ''telegram_session''\<rparr>"
  by (simp add: TelegramConfig_init_def validate_credentials_def missing_credentials_def
        truthy_def demo_environ_bad_id_def demo_int_def Let_def)

text \<open>
  C9, amended. If any of \<^verbatim>\<open>API_ID\<close>, \<^verbatim>\<open>API_HASH\<close>, \<^verbatim>\<open>PHONE_NUMBER\<close> is absent (not set, or
  empty), constructing the configuration raises a \<^verbatim>\<open>ValueError\<close> whose message lists
  exactly the absent ones; constructing the sender logs and raises the same, and \<^verbatim>\<open>main\<close>
  logs it and returns 1 with no call of the client library made, its constructor included.
  If all three are present and \<^verbatim>\<open>API_ID\<close> does not parse as an integer, constructing the
  configuration succeeds; \<^verbatim>\<open>get_api_id\<close> raises a \<^verbatim>\<open>ValueError\<close> while the sender is
  constructed, and \<^verbatim>\<open>main\<close> logs it and returns 1, again with no call of the client
  library made.
\<close>

theorem startup_fails_on_bad_configuration:
  "(\<not> truthy (environ ''API_ID'') \<or> \<not> truthy (environ ''API_HASH'') \<or>
      \<not> truthy (environ ''PHONE_NUMBER'') \<longrightarrow>
      TelegramConfig_init environ =
        Inl (missing_credentials_error
               (filter (\<lambda>k. \<not> truthy (environ k)) [''API_ID'', ''API_HASH'', ''PHONE_NUMBER''])) \<and>
      fst (TelegramSender_init py_int environ c w) =
        Inl (missing_credentials_error
               (filter (\<lambda>k. \<not> truthy (environ k)) [''API_ID'', ''API_HASH'', ''PHONE_NUMBER''])) \<and>
      fst (main_initialize py_int environ c w) = Inl 1 \<and>
      trace (snd (main_initialize py_int environ c w)) = trace w) \<and>
   (truthy (environ ''API_ID'') \<and> truthy (environ ''API_HASH'') \<and>
      truthy (environ ''PHONE_NUMBER'') \<and> environ ''API_ID'' = Some s \<and> py_int s = None \<longrightarrow>
      (\<exists>cfg. TelegramConfig_init environ = Inr cfg \<and>
         get_api_id py_int cfg = Inl (ValueError ''API_ID must be a valid integer'')) \<and>
      fst (TelegramSender_init py_int environ c w) =
        Inl (ValueError ''API_ID must be a valid integer'') \<and>
      fst (main_initialize py_int environ c w) = Inl 1 \<and>
      trace (snd (main_initialize py_int environ c w)) = trace w)"
proof -
  let ?missing = "filter (\<lambda>k. \<not> truthy (environ k)) [''API_ID'', ''API_HASH'', ''PHONE_NUMBER'']"
  have part1: "TelegramConfig_init environ = Inl (missing_credentials_error ?missing) \<and>
      fst (TelegramSender_init py_int environ c w) = Inl (missing_credentials_error ?missing) \<and>
      fst (main_initialize py_int environ c w) = Inl 1 \<and>
      trace (snd (main_initialize py_int environ c w)) = trace w"
    if a: "\<not> truthy (environ ''API_ID'') \<or> \<not> truthy (environ ''API_HASH'') \<or>
      \<not> truthy (environ ''PHONE_NUMBER'')"
  proof -
    from a have ne: "?missing \<noteq> []" by auto
    note ci = TelegramConfig_init_missing[OF ne]
    let ?e = "missing_credentials_error ?missing"
    have si: "TelegramSender_init py_int environ c w =
        (Inl ?e, logger ERROR (''Failed to initialize TelegramSender: '' @ str_exc ?e) w)"
      by (simp only: TelegramSender_init_def ci sum.case)
    show ?thesis using ci si main_initialize_fails[OF si] by (simp add: logger_def)
  qed
  have part2: "(\<exists>cfg. TelegramConfig_init environ = Inr cfg \<and>
         get_api_id py_int cfg = Inl (ValueError ''API_ID must be a valid integer'')) \<and>
      fst (TelegramSender_init py_int environ c w) =
        Inl (ValueError ''API_ID must be a valid integer'') \<and>
      fst (main_initialize py_int environ c w) = Inl 1 \<and>
      trace (snd (main_initialize py_int environ c w)) = trace w"
    if b: "truthy (environ ''API_ID'') \<and> truthy (environ ''API_HASH'') \<and>
      truthy (environ ''PHONE_NUMBER'') \<and> environ ''API_ID'' = Some s \<and> py_int s = None"
  proof -
    let ?cfg = "\<lparr>api_id = environ ''API_ID'', api_hash = environ ''API_HASH'',
          phone_number = environ ''PHONE_NUMBER'',
          session_name = (case environ ''SESSION_NAME'' of
                            None \<Rightarrow> ''telegram_session'' | Some s \<Rightarrow> s)\<rparr>"
    let ?e = "ValueError ''API_ID must be a valid integer''"
    from b have b1: "truthy (environ ''API_ID'')" and b2: "truthy (environ ''API_HASH'')"
      and b3: "truthy (environ ''PHONE_NUMBER'')" and b4: "environ ''API_ID'' = Some s"
      and b5: "py_int s = None" by blast+
    from b1 b2 b3 have e: "?missing = []" by simp
    note ci = TelegramConfig_init_present[OF e]
    have g: "get_api_id py_int ?cfg = Inl ?e"
      by (simp add: get_api_id_def b4 b5)
    have si: "TelegramSender_init py_int environ c w =
        (Inl ?e, logger ERROR (''Failed to initialize TelegramSender: '' @ str_exc ?e) w)"
      by (simp only: TelegramSender_init_def ci g sum.case)
    show ?thesis using ci g si main_initialize_fails[OF si] by (simp add: logger_def)
  qed
  show ?thesis using part1 part2 by blast
qed

theorem startup_fails_on_bad_configuration_witness:
  "\<not> truthy (demo_environ ''API_HASH'') \<and>
   TelegramConfig_init demo_environ =
     Inl (ValueError (''Missing required credentials: API_HASH'' @ [CHR 0x0A] @
       ''Please create a .env file based on .env.example and fill in your credentials.'')) \<and>
   fst (TelegramSender_init demo_int demo_environ demo_client empty_world) =
     Inl (missing_credentials_error [''API_HASH'']) \<and>
   fst (main_initialize demo_int demo_environ demo_client empty_world) = Inl 1 \<and>
   trace (snd (main_initialize demo_int demo_environ demo_client empty_world)) = [] \<and>
   truthy (demo_environ_bad_id ''API_ID'') \<and> truthy (demo_environ_bad_id ''API_HASH'') \<and>
   truthy (demo_environ_bad_id ''PHONE_NUMBER'') \<and>
   demo_environ_bad_id ''API_ID'' = Some ''abc'' \<and> demo_int ''abc'' = None \<and>
   fst (TelegramSender_init demo_int demo_environ_bad_id demo_client empty_world) =
     Inl (ValueError ''API_ID must be a valid integer'') \<and>
   fst (main_initialize demo_int demo_environ_bad_id demo_client empty_world) = Inl 1 \<and>
   trace (snd (main_initialize demo_int demo_environ_bad_id demo_client empty_world)) = []"
proof -
  have h1: "\<not> truthy (demo_environ ''API_ID'') \<or> \<not> truthy (demo_environ ''API_HASH'') \<or>
      \<not> truthy (demo_environ ''PHONE_NUMBER'')"
    by (simp add: demo_environ_def truthy_def)
  have h2: "truthy (demo_environ_bad_id ''API_ID'') \<and> truthy (demo_environ_bad_id ''API_HASH'') \<and>
      truthy (demo_environ_bad_id ''PHONE_NUMBER'') \<and>
      demo_environ_bad_id ''API_ID'' = Some ''abc'' \<and> demo_int ''abc'' = None"
    by (simp add: demo_environ_bad_id_def truthy_def demo_int_def)
  have m: "filter (\<lambda>k. \<not> truthy (demo_environ k)) [''API_ID'', ''API_HASH'', ''PHONE_NUMBER'']
      = [''API_HASH'']"
    by (simp add: demo_environ_def truthy_def)
  have a: "\<not> truthy (demo_environ ''API_HASH'')"
    by (simp add: demo_environ_def truthy_def)
  note t1 = startup_fails_on_bad_configuration
         [where environ = demo_environ and py_int = demo_int and w = empty_world and c = demo_client,
          unfolded m]
  note t2 = startup_fails_on_bad_configuration
         [where environ = demo_environ_bad_id and py_int = demo_int and w = empty_world
            and c = demo_client and s = "''abc''"]
  from t1 h1 have c1: "TelegramConfig_init demo_environ = Inl (missing_credentials_error [''API_HASH'']) \<and>
      fst (TelegramSender_init demo_int demo_environ demo_client empty_world) =
        Inl (missing_credentials_error [''API_HASH'']) \<and>
      fst (main_initialize demo_int demo_environ demo_client empty_world) = Inl 1 \<and>
      trace (snd (main_initialize demo_int demo_environ demo_client empty_world)) = trace empty_world"
    by blast
  from t2 h2 have c2: "fst (TelegramSender_init demo_int demo_environ_bad_id demo_client empty_world) =
        Inl (ValueError ''API_ID must be a valid integer'') \<and>
      fst (main_initialize demo_int demo_environ_bad_id demo_client empty_world) = Inl 1 \<and>
      trace (snd (main_initialize demo_int demo_environ_bad_id demo_client empty_world)) =
        trace empty_world"
    by blast
  have e: "trace empty_world = []" by (simp add: empty_world_def)
  have msg: "missing_credentials_error [''API_HASH''] =
     ValueError (''Missing required credentials: API_HASH'' @ [CHR 0x0A] @
       ''Please create a .env file based on .env.example and fill in your credentials.'')"
    by (simp add: missing_credentials_error_def)
  show ?thesis using c1 c2 h2 a unfolding e msg by blast
qed

end
